theory Spec2Isabelle
  imports Main "HOL-Library.Multiset"
begin

section \<open>The chat relay of backend/server.js\<close>

text \<open>
  The server keeps two MongoDB collections (\<open>User\<close>: one document per joined socket;
  \<open>Message\<close>: the persisted chat messages) and the Socket.IO room membership of every
  socket. Each handler registered with \<open>socket.on\<close> is a function from the state before
  the event to the state after it, together with the list of effects it performed, in
  the order in which the handler performs them.

  Strings are lists of code units below 256. A field of a payload, or a payload that is
  a string, may be absent (\<open>undefined\<close>): it is a \<open>string option\<close>. The payload
  object of \<open>joinRoom\<close> may itself be absent. Every persistence call of a handler may
  fail; the set \<open>down\<close> names the call sites that reject during one run of a handler.
  Each handler reads the clock once (\<open>now\<close>).
\<close>

subsection \<open>Strings\<close>

text \<open>\<open>String.prototype.trim\<close>: white space and line terminators below code unit 256.\<close>

definition is_space :: "char \<Rightarrow> bool" where
  "is_space c = (c \<in> {CHR 0x09, CHR 0x0A, CHR 0x0B, CHR 0x0C, CHR 0x0D, CHR 0x20, CHR 0xA0})"

definition trim :: "string \<Rightarrow> string" where
  "trim s = rev (dropWhile is_space (rev (dropWhile is_space s)))"

text \<open>\<open>!x\<close> for a payload field that is a string or absent.\<close>

fun falsy :: "string option \<Rightarrow> bool" where
  "falsy None = True"
| "falsy (Some s) = (s = [])"

text \<open>\<open>text || ''\<close>\<close>

fun or_empty :: "string option \<Rightarrow> string" where
  "or_empty None = []"
| "or_empty (Some s) = s"

subsection \<open>Documents (models/User.js, models/Message.js)\<close>

record user =
  socketId :: string
  username :: string
  room :: string
  joinedAt :: nat

text \<open>A message document; \<open>timestamps: true\<close> adds \<open>createdAt\<close>.\<close>

record message =
  msg_username :: string
  msg_room :: string
  msg_text :: string
  createdAt :: nat

record server =
  users :: "user list"
  messages :: "message list"
  rooms :: "(string \<times> string) set"

text \<open>
  \<open>users\<close> and \<open>messages\<close> are the collections in insertion order; \<open>rooms\<close> holds
  the pair \<open>(socket id, room)\<close> for every room a socket has joined with \<open>socket.join\<close>.
\<close>

datatype dbcall =
  UserCreate | UserFind | UserFindOne | UserFindOneAndDelete | MessageCreate | MessageFind

datatype error = ValidationError | DuplicateKey | StoreError | TypeError

subsection \<open>Events and effects\<close>

datatype event =
    Msg string string nat
  | MessageHistory "message list"
  | RoomUsers "string list"
  | Typing string
  | StopTyping string

text \<open>
  \<open>Msg username text createdAt\<close> is the payload of a \<open>message\<close> event.
  The effects of a handler: a write to a collection that resolved, \<open>socket.join\<close>, and
  the three ways of emitting: \<open>socket.emit\<close>, \<open>socket.broadcast.to(room).emit\<close> and
  \<open>io.to(room).emit\<close>.
\<close>

datatype effect =
    Persist user
  | Join string string
  | Save message
  | Remove user
  | SocketEmit string event
  | BroadcastEmit string string event
  | RoomEmit string event

text \<open>The sockets an emission reaches, given the room membership at that moment.\<close>

fun recipients :: "(string \<times> string) set \<Rightarrow> effect \<Rightarrow> string set" where
  "recipients g (SocketEmit i e) = {i}"
| "recipients g (BroadcastEmit i r e) = fst ` Set.filter (\<lambda>p. snd p = r \<and> fst p \<noteq> i) g"
| "recipients g (RoomEmit r e) = fst ` Set.filter (\<lambda>p. snd p = r) g"
| "recipients g _ = {}"

subsection \<open>The persistence calls\<close>

text \<open>
  \<open>User.create({socketId, username, room})\<close> under \<open>UserSchema\<close>: the \<open>trim\<close> setter
  of \<open>username\<close> runs, the \<open>required\<close> validators reject an empty string, the store
  may reject, and the unique index on \<open>socketId\<close> rejects a second document with the
  same socket id (the index Mongoose builds for \<open>unique: true\<close>).
\<close>

definition User_create ::
  "dbcall set \<Rightarrow> nat \<Rightarrow> string \<Rightarrow> string \<Rightarrow> string \<Rightarrow> user list \<Rightarrow> error + (user \<times> user list)" where
  "User_create down now sid un r us =
     (let u = \<lparr>socketId = sid, username = trim un, room = r, joinedAt = now\<rparr> in
      if username u = [] \<or> room u = [] \<or> socketId u = [] then Inl ValidationError
      else if UserCreate \<in> down then Inl StoreError
      else if sid \<in> set (map socketId us) then Inl DuplicateKey
      else Inr (u, us @ [u]))"

text \<open>\<open>User.find({ room })\<close>\<close>

definition User_find :: "dbcall set \<Rightarrow> string \<Rightarrow> user list \<Rightarrow> error + user list" where
  "User_find down r us =
     (if UserFind \<in> down then Inl StoreError else Inr (filter (\<lambda>u. room u = r) us))"

text \<open>\<open>User.findOne({ socketId })\<close>\<close>

definition User_findOne :: "dbcall set \<Rightarrow> string \<Rightarrow> user list \<Rightarrow> error + user option" where
  "User_findOne down sid us =
     (if UserFindOne \<in> down then Inl StoreError else Inr (find (\<lambda>u. socketId u = sid) us))"

text \<open>Deleting the first document that matches.\<close>

fun delete_first :: "string \<Rightarrow> user list \<Rightarrow> user list" where
  "delete_first sid [] = []"
| "delete_first sid (u # us) = (if socketId u = sid then us else u # delete_first sid us)"

text \<open>\<open>User.findOneAndDelete({ socketId })\<close>\<close>

definition User_findOneAndDelete ::
  "dbcall set \<Rightarrow> string \<Rightarrow> user list \<Rightarrow> error + (user option \<times> user list)" where
  "User_findOneAndDelete down sid us =
     (if UserFindOneAndDelete \<in> down then Inl StoreError
      else Inr (find (\<lambda>u. socketId u = sid) us, delete_first sid us))"

text \<open>
  \<open>Message.create({username, room, text})\<close> under \<open>MessageSchema\<close>: \<open>username\<close> is
  trimmed, the three fields are required, \<open>createdAt\<close> is the time of the insertion.
\<close>

definition Message_create ::
  "dbcall set \<Rightarrow> nat \<Rightarrow> string \<Rightarrow> string \<Rightarrow> string \<Rightarrow> message list
     \<Rightarrow> error + (message \<times> message list)" where
  "Message_create down now un r txt ms =
     (let m = \<lparr>msg_username = trim un, msg_room = r, msg_text = txt, createdAt = now\<rparr> in
      if msg_username m = [] \<or> msg_room m = [] \<or> msg_text m = [] then Inl ValidationError
      else if MessageCreate \<in> down then Inl StoreError
      else Inr (m, ms @ [m]))"

text \<open>
  \<open>.sort({ createdAt: -1 })\<close>: newest first. The store leaves the order of documents with
  equal \<open>createdAt\<close> open; here the later insertion comes first.
\<close>

definition sort_desc :: "message list \<Rightarrow> message list" where
  "sort_desc ms = rev (sort_key createdAt ms)"

text \<open>\<open>Message.find({ room }).sort({ createdAt: -1 }).limit(50).lean()\<close>\<close>

definition Message_find :: "dbcall set \<Rightarrow> string \<Rightarrow> message list \<Rightarrow> error + message list" where
  "Message_find down r ms =
     (if MessageFind \<in> down then Inl StoreError
      else Inr (take 50 (sort_desc (filter (\<lambda>m. msg_room m = r) ms))))"

subsection \<open>Utilities\<close>

definition serverMessage :: "nat \<Rightarrow> string \<Rightarrow> event" where
  "serverMessage now txt = Msg ''Server'' txt now"

definition emitRoomUsers :: "dbcall set \<Rightarrow> string \<Rightarrow> server \<Rightarrow> error + effect list" where
  "emitRoomUsers down r s =
     (case User_find down r (users s) of
        Inl e \<Rightarrow> Inl e
      | Inr usersInRoom \<Rightarrow> Inr [RoomEmit r (RoomUsers (map username usersInRoom))])"

subsection \<open>The handlers\<close>

text \<open>
  The body of a \<open>try\<close> block gives the state reached, the effects performed and the
  exception that ended it, if one was thrown.
\<close>

definition joinRoom_try ::
  "dbcall set \<Rightarrow> nat \<Rightarrow> string \<Rightarrow> string \<Rightarrow> string \<Rightarrow> server
     \<Rightarrow> server \<times> effect list \<times> error option" where
  "joinRoom_try down now sid un r s =
     (case User_create down now sid un r (users s) of
        Inl e \<Rightarrow> (s, [], Some e)
      | Inr (u, us') \<Rightarrow>
          let s1 = s\<lparr>users := us'\<rparr>;
              s2 = s1\<lparr>rooms := insert (sid, r) (rooms s1)\<rparr>;
              t2 = [Persist u, Join sid r]
          in (case Message_find down r (messages s2) of
                Inl e \<Rightarrow> (s2, t2, Some e)
              | Inr recent \<Rightarrow>
                  let t5 = t2 @
                        [SocketEmit sid (MessageHistory (rev recent)),
                         SocketEmit sid
                           (serverMessage now (''Welcome to '' @ r @ '', '' @ un @ ''!'')),
                         BroadcastEmit sid r
                           (serverMessage now (un @ '' has joined the chat.''))]
                  in (case emitRoomUsers down r s2 of
                        Inl e \<Rightarrow> (s2, t5, Some e)
                      | Inr t \<Rightarrow> (s2, t5 @ t, None))))"

text \<open>
  The listener of \<open>joinRoom\<close> from its guard on, for a payload object whose fields
  \<open>username\<close> and \<open>room\<close> are strings or absent.
\<close>

definition on_joinRoom ::
  "dbcall set \<Rightarrow> nat \<Rightarrow> string \<Rightarrow> string option \<Rightarrow> string option \<Rightarrow> server
     \<Rightarrow> server \<times> effect list" where
  "on_joinRoom down now sid uname rname s =
     (if falsy uname \<or> falsy rname then
        (s, [SocketEmit sid (serverMessage now ''Username and room are required.'')])
      else
        (case joinRoom_try down now sid (or_empty uname) (or_empty rname) s of
           (s', t, None) \<Rightarrow> (s', t)
         | (s', t, Some err) \<Rightarrow>
             (s', t @ [SocketEmit sid
                        (serverMessage now ''Failed to join room. Please try again.'')])))"

text \<open>
  The listener destructures its parameter, \<open>({ username, room })\<close>, before the \<open>try\<close>.
  For an event without a payload object this throws a \<open>TypeError\<close> that no \<open>catch\<close>
  handles: the state stays as it was and nothing is emitted.
\<close>

definition joinRoom_event ::
  "dbcall set \<Rightarrow> nat \<Rightarrow> string \<Rightarrow> (string option \<times> string option) option \<Rightarrow> server
     \<Rightarrow> server \<times> effect list \<times> error option" where
  "joinRoom_event down now sid payload s =
     (case payload of
        None \<Rightarrow> (s, [], Some TypeError)
      | Some (uname, rname) \<Rightarrow>
          (case on_joinRoom down now sid uname rname s of (s', t) \<Rightarrow> (s', t, None)))"

definition chat_message_try ::
  "dbcall set \<Rightarrow> nat \<Rightarrow> string \<Rightarrow> string option \<Rightarrow> server
     \<Rightarrow> server \<times> effect list \<times> error option" where
  "chat_message_try down now sid txt s =
     (let trimmed = trim (or_empty txt) in
      if trimmed = [] then (s, [], None)
      else
        (case User_findOne down sid (users s) of
           Inl e \<Rightarrow> (s, [], Some e)
         | Inr None \<Rightarrow> (s, [], None)
         | Inr (Some u) \<Rightarrow>
             (case Message_create down now (username u) (room u) trimmed (messages s) of
                Inl e \<Rightarrow> (s, [], Some e)
              | Inr (saved, ms') \<Rightarrow>
                  (s\<lparr>messages := ms'\<rparr>,
                   [Save saved,
                    RoomEmit (room u)
                      (Msg (msg_username saved) (msg_text saved) (createdAt saved))],
                   None))))"

definition on_chat_message ::
  "dbcall set \<Rightarrow> nat \<Rightarrow> string \<Rightarrow> string option \<Rightarrow> server \<Rightarrow> server \<times> effect list" where
  "on_chat_message down now sid txt s =
     (case chat_message_try down now sid txt s of
        (s', t, None) \<Rightarrow> (s', t)
      | (s', t, Some err) \<Rightarrow>
          (s', t @ [SocketEmit sid (serverMessage now ''Failed to send message.'')]))"

text \<open>The \<open>catch\<close> of the three handlers below only logs.\<close>

definition on_typing :: "dbcall set \<Rightarrow> string \<Rightarrow> server \<Rightarrow> server \<times> effect list" where
  "on_typing down sid s =
     (case User_findOne down sid (users s) of
        Inl e \<Rightarrow> (s, [])
      | Inr None \<Rightarrow> (s, [])
      | Inr (Some u) \<Rightarrow> (s, [BroadcastEmit sid (room u) (Typing (username u))]))"

definition on_stopTyping :: "dbcall set \<Rightarrow> string \<Rightarrow> server \<Rightarrow> server \<times> effect list" where
  "on_stopTyping down sid s =
     (case User_findOne down sid (users s) of
        Inl e \<Rightarrow> (s, [])
      | Inr None \<Rightarrow> (s, [])
      | Inr (Some u) \<Rightarrow> (s, [BroadcastEmit sid (room u) (StopTyping (username u))]))"

text \<open>
  Socket.IO takes a socket out of all its rooms before it fires \<open>disconnect\<close>; the
  handler then runs on the state without them.
\<close>

definition leave_all :: "string \<Rightarrow> server \<Rightarrow> server" where
  "leave_all sid s = s\<lparr>rooms := Set.filter (\<lambda>p. fst p \<noteq> sid) (rooms s)\<rparr>"

definition on_disconnect :: "dbcall set \<Rightarrow> nat \<Rightarrow> string \<Rightarrow> server \<Rightarrow> server \<times> effect list" where
  "on_disconnect down now sid s0 =
     (let s = leave_all sid s0 in
      case User_findOneAndDelete down sid (users s) of
        Inl e \<Rightarrow> (s, [])
      | Inr (None, us') \<Rightarrow> (s, [])
      | Inr (Some u, us') \<Rightarrow>
          let s1 = s\<lparr>users := us'\<rparr>;
              t2 = [Remove u,
                    RoomEmit (room u)
                      (serverMessage now (username u @ '' has left the chat.''))]
          in (case emitRoomUsers down (room u) s1 of
                Inl e \<Rightarrow> (s1, t2)
              | Inr t \<Rightarrow> (s1, t2 @ t)))"

text \<open>The occupants of a room: what \<open>emitRoomUsers\<close> reads from the \<open>User\<close> collection.\<close>

definition occupants :: "string \<Rightarrow> server \<Rightarrow> string list" where
  "occupants r s = map username (filter (\<lambda>u. room u = r) (users s))"

subsection \<open>The client's composer (the chat page)\<close>

datatype client_event = EmitTyping | EmitStopTyping | EmitChatMessage string

text \<open>
  \<open>msg\<close> is the composer's value, \<open>hasToldServerTyping\<close> the ref of that name,
  \<open>typingTimeout\<close> whether the idle timer is armed.
\<close>

record client =
  msg :: string
  hasToldServerTyping :: bool
  typingTimeout :: bool

definition stopTyping :: "client \<Rightarrow> client \<times> client_event list" where
  "stopTyping c =
     (let (c1, out) =
            (if hasToldServerTyping c
             then (c\<lparr>hasToldServerTyping := False\<rparr>, [EmitStopTyping])
             else (c, []))
      in (c1\<lparr>typingTimeout := False\<rparr>, out))"

definition sendMessage :: "client \<Rightarrow> client \<times> client_event list" where
  "sendMessage c =
     (let txt = trim (msg c) in
      if txt = [] then (c, [])
      else
        let (c1, out) = stopTyping c
        in (c1\<lparr>msg := []\<rparr>, out @ [EmitChatMessage txt]))"

text \<open>
  The listener the server runs for an event that a client emitted. The listeners are
  \<open>async\<close> functions, each started when its event arrives; nothing orders the effects
  of one listener with those of another.
\<close>

fun handle :: "dbcall set \<Rightarrow> nat \<Rightarrow> string \<Rightarrow> client_event \<Rightarrow> server \<Rightarrow> server \<times> effect list" where
  "handle down now sid EmitTyping s = on_typing down sid s"
| "handle down now sid EmitStopTyping s = on_stopTyping down sid s"
| "handle down now sid (EmitChatMessage txt) s = on_chat_message down now sid (Some txt) s"

subsection \<open>Terms of the handlers that the properties name\<close>

text \<open>The document \<open>User.create\<close> writes for a join.\<close>

definition new_user :: "nat \<Rightarrow> string \<Rightarrow> string \<Rightarrow> string \<Rightarrow> user" where
  "new_user now sid un r = \<lparr>socketId = sid, username = trim un, room = r, joinedAt = now\<rparr>"

text \<open>The argument of \<open>socket.emit('messageHistory', recent.reverse())\<close>.\<close>

definition recent_history :: "string \<Rightarrow> message list \<Rightarrow> message list" where
  "recent_history r ms = rev (take 50 (sort_desc (filter (\<lambda>m. msg_room m = r) ms)))"

text \<open>The effect is a \<open>socket.join\<close>.\<close>

fun is_join :: "effect \<Rightarrow> bool" where
  "is_join (Join i g) = True"
| "is_join _ = False"

text \<open>The document \<open>Message.create\<close> writes for a message of the session \<open>u\<close>.\<close>

definition new_message :: "nat \<Rightarrow> user \<Rightarrow> string \<Rightarrow> message" where
  "new_message now u txt =
     \<lparr>msg_username = trim (username u), msg_room = room u, msg_text = txt, createdAt = now\<rparr>"

text \<open>The author and the room of a message that an effect stores or sends to a room.\<close>

fun addressed :: "effect \<Rightarrow> (string \<times> string) option" where
  "addressed (Save m) = Some (msg_username m, msg_room m)"
| "addressed (RoomEmit g (Msg un tx ts)) = Some (un, g)"
| "addressed (BroadcastEmit i g (Msg un tx ts)) = Some (un, g)"
| "addressed _ = None"

text \<open>The effect emits a \<open>messageHistory\<close> event.\<close>

fun carries_history :: "effect \<Rightarrow> bool" where
  "carries_history (SocketEmit i (MessageHistory h)) = True"
| "carries_history (BroadcastEmit i g (MessageHistory h)) = True"
| "carries_history (RoomEmit g (MessageHistory h)) = True"
| "carries_history _ = False"

text \<open>The effect emits a \<open>stopTyping\<close> event.\<close>

fun is_stop_typing :: "effect \<Rightarrow> bool" where
  "is_stop_typing (SocketEmit i (StopTyping n)) = True"
| "is_stop_typing (BroadcastEmit i g (StopTyping n)) = True"
| "is_stop_typing (RoomEmit g (StopTyping n)) = True"
| "is_stop_typing _ = False"

section \<open>Properties\<close>

subsection \<open>Trimming\<close>

lemma trim_empty_iff: "trim s = [] \<longleftrightarrow> (\<forall>c \<in> set s. is_space c)"
proof (cases "dropWhile is_space s = []")
  case True
  have "trim s = []"
    unfolding trim_def True by simp
  moreover have "\<forall>c \<in> set s. is_space c"
    using True by simp
  ultimately show ?thesis
    by simp
next
  case False
  then have "\<not> is_space (hd (dropWhile is_space s))"
    by (rule hd_dropWhile)
  moreover have "hd (dropWhile is_space s) \<in> set (dropWhile is_space s)"
    using False by simp
  ultimately have "trim s \<noteq> []"
    by (auto simp: trim_def)
  moreover have "\<not> (\<forall>c \<in> set s. is_space c)"
    using False by simp
  ultimately show ?thesis
    by simp
qed

lemma trim_Nil [simp]: "trim [] = []"
  by (simp add: trim_def)

lemma trim_idem: "trim (trim s) = trim s"
proof -
  define a where "a = dropWhile is_space s"
  define b where "b = rev (dropWhile is_space (rev a))"
  have b: "trim s = b"
    by (simp add: trim_def a_def b_def)
  have "a = rev (takeWhile is_space (rev a) @ dropWhile is_space (rev a))"
    by (simp only: takeWhile_dropWhile_id rev_rev_ident)
  then have "a = b @ rev (takeWhile is_space (rev a))"
    by (simp only: rev_append b_def)
  then obtain c where a: "a = b @ c" ..
  have "dropWhile is_space b = b"
  proof (cases "b = []")
    case True
    then show ?thesis by simp
  next
    case False
    then have "a \<noteq> []" and "hd a = hd b"
      by (simp_all add: a)
    moreover have "a \<noteq> [] \<Longrightarrow> \<not> is_space (hd a)"
      unfolding a_def by (rule hd_dropWhile)
    ultimately show ?thesis
      by (simp add: dropWhile_eq_self_iff)
  qed
  then have "trim b = rev (dropWhile is_space (rev b))"
    by (simp add: trim_def)
  also have "\<dots> = b"
    by (simp add: b_def)
  finally show ?thesis
    by (simp add: b)
qed

subsection \<open>Joining\<close>

lemma User_create_cases:
  "User_create down now sid un r us =
     (if trim un \<noteq> [] \<and> r \<noteq> [] \<and> sid \<noteq> [] \<and> UserCreate \<notin> down \<and> sid \<notin> socketId ` set us
      then Inr (new_user now sid un r, us @ [new_user now sid un r])
      else Inl (if trim un = [] \<or> r = [] \<or> sid = [] then ValidationError
                else if UserCreate \<in> down then StoreError else DuplicateKey))"
  by (simp add: User_create_def new_user_def Let_def)

lemma joinRoom_try_rejected:
  assumes "\<not> (trim un \<noteq> [] \<and> r \<noteq> [] \<and> sid \<noteq> [] \<and> UserCreate \<notin> down \<and> sid \<notin> socketId ` set (users s))"
  shows "\<exists>e. joinRoom_try down now sid un r s = (s, [], Some e)"
  using assms by (auto simp add: joinRoom_try_def User_create_cases)

lemma joinRoom_try_created:
  assumes "trim un \<noteq> []" "r \<noteq> []" "sid \<noteq> []" "UserCreate \<notin> down" "sid \<notin> socketId ` set (users s)"
  shows "joinRoom_try down now sid un r s =
     (s\<lparr>users := users s @ [new_user now sid un r], rooms := insert (sid, r) (rooms s)\<rparr>,
      [Persist (new_user now sid un r), Join sid r] @
      (if MessageFind \<in> down then []
       else [SocketEmit sid (MessageHistory (recent_history r (messages s))),
             SocketEmit sid (serverMessage now (''Welcome to '' @ r @ '', '' @ un @ ''!'')),
             BroadcastEmit sid r (serverMessage now (un @ '' has joined the chat.''))] @
            (if UserFind \<in> down then []
             else [RoomEmit r (RoomUsers (occupants r s @ [trim un]))])),
      if MessageFind \<in> down \<or> UserFind \<in> down then Some StoreError else None)"
  using assms
  by (simp add: joinRoom_try_def User_create_cases Message_find_def emitRoomUsers_def User_find_def
      recent_history_def occupants_def new_user_def Let_def)

lemma on_joinRoom_missing:
  "falsy uname \<or> falsy rname \<Longrightarrow>
   on_joinRoom down now sid uname rname s =
     (s, [SocketEmit sid (serverMessage now ''Username and room are required.'')])"
  by (simp add: on_joinRoom_def)

lemma on_joinRoom_rejected:
  assumes "\<not> falsy uname" "\<not> falsy rname"
    and "\<not> (trim (or_empty uname) \<noteq> [] \<and> sid \<noteq> [] \<and> UserCreate \<notin> down
             \<and> sid \<notin> socketId ` set (users s))"
  shows "on_joinRoom down now sid uname rname s =
     (s, [SocketEmit sid (serverMessage now ''Failed to join room. Please try again.'')])"
proof -
  obtain e where "joinRoom_try down now sid (or_empty uname) (or_empty rname) s = (s, [], Some e)"
    using joinRoom_try_rejected [of "or_empty uname" "or_empty rname" sid down s now] assms(3)
    by blast
  then show ?thesis
    using assms(1,2) by (simp add: on_joinRoom_def)
qed

lemma on_joinRoom_created:
  assumes "trim un \<noteq> []" "r \<noteq> []" "sid \<noteq> []" "UserCreate \<notin> down"
    "sid \<notin> socketId ` set (users s)"
  shows "on_joinRoom down now sid (Some un) (Some r) s =
     (s\<lparr>users := users s @ [new_user now sid un r], rooms := insert (sid, r) (rooms s)\<rparr>,
      [Persist (new_user now sid un r), Join sid r] @
      (if MessageFind \<in> down then []
       else [SocketEmit sid (MessageHistory (recent_history r (messages s))),
             SocketEmit sid (serverMessage now (''Welcome to '' @ r @ '', '' @ un @ ''!'')),
             BroadcastEmit sid r (serverMessage now (un @ '' has joined the chat.''))] @
            (if UserFind \<in> down then []
             else [RoomEmit r (RoomUsers (occupants r s @ [trim un]))])) @
      (if MessageFind \<in> down \<or> UserFind \<in> down
       then [SocketEmit sid (serverMessage now ''Failed to join room. Please try again.'')]
       else []))"
proof -
  have "un \<noteq> []"
    using assms(1) by auto
  then show ?thesis
    using assms by (simp add: on_joinRoom_def joinRoom_try_created)
qed

subsection \<open>The order of the effects of a join\<close>

lemma join_follows_persist:
  assumes "Persist u # Join sid r # rest = before @ Join i g # after"
    and "\<forall>e \<in> set rest. \<not> is_join e"
  shows "before = [Persist u]"
proof (cases before)
  case Nil
  with assms(1) show ?thesis by simp
next
  case (Cons b bs)
  with assms(1) have bs: "Join sid r # rest = bs @ Join i g # after"
    and b: "b = Persist u"
    by simp_all
  show ?thesis
  proof (cases bs)
    case Nil
    with Cons b show ?thesis by simp
  next
    case (Cons c cs)
    with bs have "rest = cs @ Join i g # after"
      by simp
    with assms(2) show ?thesis
      by simp
  qed
qed

text \<open>
  C1. A join that succeeds (a user name that is not blank, a room name, a socket without
  a session, no persistence call failing) performs exactly these effects, in this order:
  the session is persisted, the socket joins the room, the history and then the welcome
  notice are emitted to the joining socket, the join notice is broadcast to the others
  in the room, the list of the room's users is emitted to the room. In every run of the
  handler, whatever its input and whichever calls fail, all that precedes a
  \<open>socket.join\<close> is the one write of the session, which is in the collection.
\<close>

theorem joinRoom_effect_order:
  "(uname = Some un \<and> rname = Some r \<and> trim un \<noteq> [] \<and> r \<noteq> [] \<and> sid \<noteq> []
      \<and> sid \<notin> socketId ` set (users s)
      \<and> UserCreate \<notin> down \<and> MessageFind \<notin> down \<and> UserFind \<notin> down \<longrightarrow>
    on_joinRoom down now sid uname rname s =
      (s\<lparr>users := users s @ [new_user now sid un r], rooms := insert (sid, r) (rooms s)\<rparr>,
       [Persist (new_user now sid un r),
        Join sid r,
        SocketEmit sid (MessageHistory (recent_history r (messages s))),
        SocketEmit sid (serverMessage now (''Welcome to '' @ r @ '', '' @ un @ ''!'')),
        BroadcastEmit sid r (serverMessage now (un @ '' has joined the chat.'')),
        RoomEmit r (RoomUsers (occupants r s @ [trim un]))]))
   \<and> (\<forall>before after i g.
        snd (on_joinRoom down now sid uname rname s) = before @ Join i g # after \<longrightarrow>
        (\<exists>u. before = [Persist u]
           \<and> u \<in> set (users (fst (on_joinRoom down now sid uname rname s)))))"
proof (intro conjI impI allI)
  assume "uname = Some un \<and> rname = Some r \<and> trim un \<noteq> [] \<and> r \<noteq> [] \<and> sid \<noteq> []
      \<and> sid \<notin> socketId ` set (users s)
      \<and> UserCreate \<notin> down \<and> MessageFind \<notin> down \<and> UserFind \<notin> down"
  then show "on_joinRoom down now sid uname rname s =
      (s\<lparr>users := users s @ [new_user now sid un r], rooms := insert (sid, r) (rooms s)\<rparr>,
       [Persist (new_user now sid un r),
        Join sid r,
        SocketEmit sid (MessageHistory (recent_history r (messages s))),
        SocketEmit sid (serverMessage now (''Welcome to '' @ r @ '', '' @ un @ ''!'')),
        BroadcastEmit sid r (serverMessage now (un @ '' has joined the chat.'')),
        RoomEmit r (RoomUsers (occupants r s @ [trim un]))])"
    by (simp add: on_joinRoom_created)
next
  fix before after i g
  assume run: "snd (on_joinRoom down now sid uname rname s) = before @ Join i g # after"
  show "\<exists>u. before = [Persist u]
           \<and> u \<in> set (users (fst (on_joinRoom down now sid uname rname s)))"
  proof (cases "falsy uname \<or> falsy rname")
    case True
    with run show ?thesis
      by (simp add: on_joinRoom_missing Cons_eq_append_conv)
  next
    case valid: False
    show ?thesis
    proof (cases "trim (or_empty uname) \<noteq> [] \<and> sid \<noteq> [] \<and> UserCreate \<notin> down
             \<and> sid \<notin> socketId ` set (users s)")
      case False
      with valid run show ?thesis
        by (simp add: on_joinRoom_rejected Cons_eq_append_conv)
    next
      case True
      from valid obtain un' r' where names: "uname = Some un'" "rname = Some r'" "r' \<noteq> []"
        by (cases uname; cases rname) auto
      let ?u = "new_user now sid un' r'"
      from True names
      have res: "on_joinRoom down now sid uname rname s =
         (s\<lparr>users := users s @ [?u], rooms := insert (sid, r') (rooms s)\<rparr>,
          [Persist ?u, Join sid r'] @
      (if MessageFind \<in> down then []
       else [SocketEmit sid (MessageHistory (recent_history r' (messages s))),
             SocketEmit sid (serverMessage now (''Welcome to '' @ r' @ '', '' @ un' @ ''!'')),
             BroadcastEmit sid r' (serverMessage now (un' @ '' has joined the chat.''))] @
            (if UserFind \<in> down then []
             else [RoomEmit r' (RoomUsers (occupants r' s @ [trim un']))])) @
      (if MessageFind \<in> down \<or> UserFind \<in> down
       then [SocketEmit sid (serverMessage now ''Failed to join room. Please try again.'')]
       else []))"
        by (simp add: on_joinRoom_created)
      then obtain rest where
        t: "snd (on_joinRoom down now sid uname rname s) = Persist ?u # Join sid r' # rest"
        and rest: "\<forall>e \<in> set rest. \<not> is_join e"
        by simp
      from t run have "Persist ?u # Join sid r' # rest = before @ Join i g # after"
        by simp
      then have "before = [Persist ?u]"
        using rest by (rule join_follows_persist)
      moreover have "?u \<in> set (users (fst (on_joinRoom down now sid uname rname s)))"
        by (simp add: res)
      ultimately show ?thesis
        by blast
    qed
  qed
qed

theorem joinRoom_effect_order_witness:
  "(Some ''ann'' = Some ''ann'' \<and> Some ''X'' = Some ''X'' \<and> trim ''ann'' \<noteq> [] \<and> ''X'' \<noteq> [] \<and> ''s1'' \<noteq> []
      \<and> ''s1'' \<notin> socketId ` set (users \<lparr>users = [], messages = [], rooms = {}\<rparr>)
      \<and> UserCreate \<notin> {} \<and> MessageFind \<notin> {} \<and> UserFind \<notin> ({} :: dbcall set))
   \<and> on_joinRoom {} 7 ''s1'' (Some ''ann'') (Some ''X'') \<lparr>users = [], messages = [], rooms = {}\<rparr> =
      (\<lparr>users = [\<lparr>socketId = ''s1'', username = ''ann'', room = ''X'', joinedAt = 7\<rparr>],
        messages = [], rooms = {(''s1'', ''X'')}\<rparr>,
       [Persist \<lparr>socketId = ''s1'', username = ''ann'', room = ''X'', joinedAt = 7\<rparr>,
        Join ''s1'' ''X'',
        SocketEmit ''s1'' (MessageHistory []),
        SocketEmit ''s1'' (Msg ''Server'' ''Welcome to X, ann!'' 7),
        BroadcastEmit ''s1'' ''X'' (Msg ''Server'' ''ann has joined the chat.'' 7),
        RoomEmit ''X'' (RoomUsers [''ann''])])"
  using joinRoom_effect_order [of "Some ''ann''" "''ann''" "Some ''X''" "''X''" "''s1''"
      "\<lparr>users = [], messages = [], rooms = {}\<rparr>" "{}" 7]
  by (simp add: trim_def is_space_def new_user_def recent_history_def sort_desc_def
      serverMessage_def occupants_def)

subsection \<open>Sending\<close>

lemma on_chat_message_eq:
  "on_chat_message down now sid txt s =
     (if trim (or_empty txt) = [] then (s, [])
      else if UserFindOne \<in> down
        then (s, [SocketEmit sid (serverMessage now ''Failed to send message.'')])
      else
        (case find (\<lambda>u. socketId u = sid) (users s) of
           None \<Rightarrow> (s, [])
         | Some u \<Rightarrow>
             if trim (username u) \<noteq> [] \<and> room u \<noteq> [] \<and> MessageCreate \<notin> down
             then (s\<lparr>messages := messages s @ [new_message now u (trim (or_empty txt))]\<rparr>,
                   [Save (new_message now u (trim (or_empty txt))),
                    RoomEmit (room u) (Msg (trim (username u)) (trim (or_empty txt)) now)])
             else (s, [SocketEmit sid (serverMessage now ''Failed to send message.'')])))"
  by (simp add: on_chat_message_def chat_message_try_def User_findOne_def Message_create_def
      new_message_def Let_def split: option.split)

lemma no_session_iff:
  "find (\<lambda>u. socketId u = sid) us = None \<longleftrightarrow> sid \<notin> socketId ` set us"
  by (auto simp: find_None_iff)

text \<open>
  C4. A \<open>chat-message\<close> whose text is absent, empty or made of white space only is a
  silent no-op: the handler returns the state as it was and performs no effect (no
  write, no emission), on every socket and whichever persistence calls would fail.
\<close>

theorem blank_chat_message_ignored:
  "list_all is_space (or_empty txt) \<Longrightarrow> on_chat_message down now sid txt s = (s, [])"
  by (simp add: on_chat_message_eq trim_empty_iff list_all_iff)

theorem blank_chat_message_ignored_witness:
  "list_all is_space (or_empty (Some [CHR '' '', CHR 0x09]))
   \<and> on_chat_message {} 7 ''s1'' (Some [CHR '' '', CHR 0x09])
        \<lparr>users = [\<lparr>socketId = ''s1'', username = ''ann'', room = ''X'', joinedAt = 0\<rparr>],
         messages = [], rooms = {(''s1'', ''X'')}\<rparr>
     = (\<lparr>users = [\<lparr>socketId = ''s1'', username = ''ann'', room = ''X'', joinedAt = 0\<rparr>],
         messages = [], rooms = {(''s1'', ''X'')}\<rparr>, [])"
  using blank_chat_message_ignored [of "Some [CHR '' '', CHR 0x09]" "{}" 7 "''s1''"
      "\<lparr>users = [\<lparr>socketId = ''s1'', username = ''ann'', room = ''X'', joinedAt = 0\<rparr>],
         messages = [], rooms = {(''s1'', ''X'')}\<rparr>"]
  by (simp add: is_space_def)

subsection \<open>Typing and leaving\<close>

lemma on_typing_eq:
  "on_typing down sid s =
     (if UserFindOne \<in> down then (s, [])
      else case find (\<lambda>u. socketId u = sid) (users s) of
             None \<Rightarrow> (s, [])
           | Some u \<Rightarrow> (s, [BroadcastEmit sid (room u) (Typing (username u))]))"
  by (simp add: on_typing_def User_findOne_def split: option.split)

lemma on_stopTyping_eq:
  "on_stopTyping down sid s =
     (if UserFindOne \<in> down then (s, [])
      else case find (\<lambda>u. socketId u = sid) (users s) of
             None \<Rightarrow> (s, [])
           | Some u \<Rightarrow> (s, [BroadcastEmit sid (room u) (StopTyping (username u))]))"
  by (simp add: on_stopTyping_def User_findOne_def split: option.split)

lemma on_disconnect_eq:
  "on_disconnect down now sid s =
     (if UserFindOneAndDelete \<in> down then (leave_all sid s, [])
      else case find (\<lambda>u. socketId u = sid) (users s) of
             None \<Rightarrow> (leave_all sid s, [])
           | Some u \<Rightarrow>
               ((leave_all sid s)\<lparr>users := delete_first sid (users s)\<rparr>,
                [Remove u,
                 RoomEmit (room u) (serverMessage now (username u @ '' has left the chat.''))] @
                (if UserFind \<in> down then []
                 else [RoomEmit (room u)
                         (RoomUsers (occupants (room u)
                            (s\<lparr>users := delete_first sid (users s)\<rparr>)))])))"
  by (simp add: on_disconnect_def User_findOneAndDelete_def leave_all_def emitRoomUsers_def
      User_find_def occupants_def Let_def split: option.split)

text \<open>
  C9. On a socket that has no session in the \<open>User\<close> collection: a \<open>chat-message\<close>
  whose lookup of the session answers, a \<open>typing\<close> and a \<open>stopTyping\<close> leave the state
  as it was and perform no effect; a \<open>disconnect\<close> performs no effect either and leaves
  both collections as they were.
\<close>

theorem unknown_connection_ignored:
  assumes "sid \<notin> socketId ` set (users s)"
  shows "(UserFindOne \<notin> down \<longrightarrow> on_chat_message down now sid txt s = (s, []))
    \<and> on_typing down sid s = (s, [])
    \<and> on_stopTyping down sid s = (s, [])
    \<and> snd (on_disconnect down now sid s) = []
    \<and> users (fst (on_disconnect down now sid s)) = users s
    \<and> messages (fst (on_disconnect down now sid s)) = messages s"
proof -
  from assms have "find (\<lambda>u. socketId u = sid) (users s) = None"
    by (simp add: no_session_iff)
  then show ?thesis
    by (simp add: on_chat_message_eq on_typing_eq on_stopTyping_eq on_disconnect_eq leave_all_def)
qed

theorem unknown_connection_ignored_witness:
  "''s2'' \<notin> socketId ` set (users
        \<lparr>users = [\<lparr>socketId = ''s1'', username = ''ann'', room = ''X'', joinedAt = 0\<rparr>],
         messages = [], rooms = {(''s1'', ''X'')}\<rparr>)
   \<and> (UserFindOne \<notin> ({} :: dbcall set))
   \<and> on_chat_message {} 7 ''s2'' (Some ''hi'')
        \<lparr>users = [\<lparr>socketId = ''s1'', username = ''ann'', room = ''X'', joinedAt = 0\<rparr>],
         messages = [], rooms = {(''s1'', ''X'')}\<rparr>
     = (\<lparr>users = [\<lparr>socketId = ''s1'', username = ''ann'', room = ''X'', joinedAt = 0\<rparr>],
         messages = [], rooms = {(''s1'', ''X'')}\<rparr>, [])
   \<and> snd (on_disconnect {} 7 ''s2''
        \<lparr>users = [\<lparr>socketId = ''s1'', username = ''ann'', room = ''X'', joinedAt = 0\<rparr>],
         messages = [], rooms = {(''s1'', ''X'')}\<rparr>) = []"
  using unknown_connection_ignored [of "''s2''"
      "\<lparr>users = [\<lparr>socketId = ''s1'', username = ''ann'', room = ''X'', joinedAt = 0\<rparr>],
         messages = [], rooms = {(''s1'', ''X'')}\<rparr>" "{}" 7 "Some ''hi''"]
  by simp

text \<open>
  C10. For a socket whose session is \<open>u\<close>, every message that a \<open>chat-message\<close> stores
  or sends to a room has the (trimmed) user name of \<open>u\<close> as its author and the room of
  \<open>u\<close> as its room, whatever the text sent; notices go to the sending socket only. The
  effects are the same in every state in which the socket has this session: nothing else
  of the state, and no other input, enters them. A \<open>typing\<close> or \<open>stopTyping\<close> of the
  socket announces nothing but the user name of \<open>u\<close>, to the others in the room of \<open>u\<close>.
\<close>

theorem chat_identity_from_session:
  assumes "find (\<lambda>v. socketId v = sid) (users s) = Some u"
  shows "(\<forall>e \<in> set (snd (on_chat_message down now sid txt s)).
            (addressed e = None \<or> addressed e = Some (trim (username u), room u))
          \<and> (\<forall>i ev. e = SocketEmit i ev \<longrightarrow> i = sid))
    \<and> (\<forall>s2. find (\<lambda>v. socketId v = sid) (users s2) = Some u \<longrightarrow>
          snd (on_chat_message down now sid txt s2) = snd (on_chat_message down now sid txt s))
    \<and> set (snd (on_typing down sid s)) \<subseteq> {BroadcastEmit sid (room u) (Typing (username u))}
    \<and> set (snd (on_stopTyping down sid s))
          \<subseteq> {BroadcastEmit sid (room u) (StopTyping (username u))}"
  using assms
  by (simp add: on_chat_message_eq on_typing_eq on_stopTyping_eq new_message_def
      serverMessage_def)

theorem chat_identity_from_session_witness:
  "find (\<lambda>v. socketId v = ''s1'')
     (users \<lparr>users = [\<lparr>socketId = ''s1'', username = ''ann'', room = ''X'', joinedAt = 0\<rparr>],
         messages = [], rooms = {(''s1'', ''X'')}\<rparr>)
     = Some \<lparr>socketId = ''s1'', username = ''ann'', room = ''X'', joinedAt = 0\<rparr>
   \<and> list_all (\<lambda>e. addressed e = None \<or> addressed e = Some (''ann'', ''X''))
        (snd (on_chat_message {} 7 ''s1'' (Some ''hi'')
          \<lparr>users = [\<lparr>socketId = ''s1'', username = ''ann'', room = ''X'', joinedAt = 0\<rparr>],
           messages = [], rooms = {(''s1'', ''X'')}\<rparr>))
   \<and> find (\<lambda>v. socketId v = ''s1'')
     (users \<lparr>users = [\<lparr>socketId = ''s2'', username = ''bob'', room = ''Y'', joinedAt = 1\<rparr>,
                      \<lparr>socketId = ''s1'', username = ''ann'', room = ''X'', joinedAt = 0\<rparr>],
         messages = [\<lparr>msg_username = ''bob'', msg_room = ''Y'', msg_text = ''yo'', createdAt = 2\<rparr>],
         rooms = {(''s1'', ''X''), (''s2'', ''Y'')}\<rparr>)
     = Some \<lparr>socketId = ''s1'', username = ''ann'', room = ''X'', joinedAt = 0\<rparr>
   \<and> snd (on_chat_message {} 7 ''s1'' (Some ''hi'')
        \<lparr>users = [\<lparr>socketId = ''s2'', username = ''bob'', room = ''Y'', joinedAt = 1\<rparr>,
                  \<lparr>socketId = ''s1'', username = ''ann'', room = ''X'', joinedAt = 0\<rparr>],
         messages = [\<lparr>msg_username = ''bob'', msg_room = ''Y'', msg_text = ''yo'', createdAt = 2\<rparr>],
         rooms = {(''s1'', ''X''), (''s2'', ''Y'')}\<rparr>)
     = snd (on_chat_message {} 7 ''s1'' (Some ''hi'')
        \<lparr>users = [\<lparr>socketId = ''s1'', username = ''ann'', room = ''X'', joinedAt = 0\<rparr>],
         messages = [], rooms = {(''s1'', ''X'')}\<rparr>)"
proof -
  let ?u = "\<lparr>socketId = ''s1'', username = ''ann'', room = ''X'', joinedAt = 0\<rparr>"
  let ?s = "\<lparr>users = [?u], messages = [], rooms = {(''s1'', ''X'')}\<rparr>"
  let ?s2 = "\<lparr>users = [\<lparr>socketId = ''s2'', username = ''bob'', room = ''Y'', joinedAt = 1\<rparr>, ?u],
         messages = [\<lparr>msg_username = ''bob'', msg_room = ''Y'', msg_text = ''yo'', createdAt = 2\<rparr>],
         rooms = {(''s1'', ''X''), (''s2'', ''Y'')}\<rparr>"
  have session: "find (\<lambda>v. socketId v = ''s1'') (users ?s) = Some ?u"
    by simp
  have session2: "find (\<lambda>v. socketId v = ''s1'') (users ?s2) = Some ?u"
    by simp
  have name: "trim (username ?u) = ''ann''" and room: "room ?u = ''X''"
    by (simp_all add: trim_def is_space_def)
  note run = chat_identity_from_session [OF session, of "{}" 7 "Some ''hi''"]
  from run have "\<forall>e \<in> set (snd (on_chat_message {} 7 ''s1'' (Some ''hi'') ?s)).
         addressed e = None \<or> addressed e = Some (trim (username ?u), room ?u)"
    by blast
  then have identity: "list_all (\<lambda>e. addressed e = None \<or> addressed e = Some (''ann'', ''X''))
        (snd (on_chat_message {} 7 ''s1'' (Some ''hi'') ?s))"
    by (simp only: name room list_all_iff)
  from run session2 have "snd (on_chat_message {} 7 ''s1'' (Some ''hi'') ?s2)
      = snd (on_chat_message {} 7 ''s1'' (Some ''hi'') ?s)"
    by blast
  with session identity session2 show ?thesis
    by blast
qed

subsection \<open>The history sent on a join\<close>

lemma recent_history_drop:
  "recent_history r ms =
     drop (length (filter (\<lambda>m. msg_room m = r) ms) - 50)
       (sort_key createdAt (filter (\<lambda>m. msg_room m = r) ms))"
  by (simp add: recent_history_def sort_desc_def take_rev)

lemma recent_history_sorted: "sorted (map createdAt (recent_history r ms))"
proof -
  have "sorted (map createdAt (sort_key createdAt (filter (\<lambda>m. msg_room m = r) ms)))"
    by (rule sorted_sort_key)
  then have "sorted (drop (length (filter (\<lambda>m. msg_room m = r) ms) - 50)
      (map createdAt (sort_key createdAt (filter (\<lambda>m. msg_room m = r) ms))))"
    by (rule sorted_wrt_drop)
  then show ?thesis
    by (simp only: recent_history_drop drop_map)
qed

lemma recent_history_length:
  "length (recent_history r ms) = min 50 (length (filter (\<lambda>m. msg_room m = r) ms))"
  by (simp add: recent_history_drop)

lemma recent_history_newest:
  "\<exists>older. mset (filter (\<lambda>m. msg_room m = r) ms) = mset older + mset (recent_history r ms)
     \<and> (\<forall>m \<in> set older. \<forall>m' \<in> set (recent_history r ms). createdAt m \<le> createdAt m')"
proof -
  let ?xs = "filter (\<lambda>m. msg_room m = r) ms"
  let ?ys = "sort_key createdAt ?xs"
  let ?k = "length ?xs - 50"
  have split: "?ys = take ?k ?ys @ recent_history r ms"
    by (simp add: recent_history_drop)
  have "mset ?xs = mset ?ys"
    by simp
  also have "\<dots> = mset (take ?k ?ys @ recent_history r ms)"
    using split by simp
  finally have parts: "mset ?xs = mset (take ?k ?ys) + mset (recent_history r ms)"
    by simp
  have "sorted (map createdAt ?ys)"
    by (rule sorted_sort_key)
  then have "sorted (map createdAt (take ?k ?ys @ recent_history r ms))"
    using split by simp
  then have "\<forall>m \<in> set (take ?k ?ys). \<forall>m' \<in> set (recent_history r ms).
      createdAt m \<le> createdAt m'"
    by (simp add: sorted_append)
  with parts show ?thesis
    by blast
qed

lemma history_only_to_joiner:
  assumes "e \<in> set (snd (on_joinRoom down now sid uname rname s))" and "carries_history e"
  shows "\<exists>r. rname = Some r \<and> e = SocketEmit sid (MessageHistory (recent_history r (messages s)))"
proof (cases "falsy uname \<or> falsy rname")
  case True
  with assms show ?thesis
    by (simp add: on_joinRoom_missing serverMessage_def)
next
  case valid: False
  show ?thesis
  proof (cases "trim (or_empty uname) \<noteq> [] \<and> sid \<noteq> [] \<and> UserCreate \<notin> down
             \<and> sid \<notin> socketId ` set (users s)")
    case False
    with valid assms show ?thesis
      by (simp add: on_joinRoom_rejected serverMessage_def)
  next
    case True
    from valid obtain un r where names: "uname = Some un" "rname = Some r" "r \<noteq> []"
      by (cases uname; cases rname) auto
    with True assms show ?thesis
      by (auto simp add: on_joinRoom_created serverMessage_def split: if_splits)
  qed
qed

text \<open>
  C3. In every run of the join handler, an effect that carries a message history is the
  emission to the joining socket alone (never to a room, and reaching that socket only
  whatever the membership of the rooms) of the history of the room joined; a join whose
  session is created and whose history fetch answers emits it exactly once. That history is in ascending order of \<open>createdAt\<close>, has
  \<open>min 50 total\<close> messages, where \<open>total\<close> counts the stored messages of the room,
  and consists of the newest of them: the stored messages of the room are the history
  together with messages none of which is newer than any message of the history.
\<close>

theorem join_history:
  "(\<forall>e \<in> set (snd (on_joinRoom down now sid uname rname s)). carries_history e \<longrightarrow>
      (\<exists>g. rname = Some g
         \<and> e = SocketEmit sid (MessageHistory (recent_history g (messages s)))
         \<and> recipients members e = {sid}))
   \<and> (uname = Some un \<and> rname = Some r \<and> trim un \<noteq> [] \<and> r \<noteq> [] \<and> sid \<noteq> []
        \<and> sid \<notin> socketId ` set (users s) \<and> UserCreate \<notin> down \<and> MessageFind \<notin> down \<longrightarrow>
      filter carries_history (snd (on_joinRoom down now sid uname rname s)) =
        [SocketEmit sid (MessageHistory (recent_history r (messages s)))])
   \<and> sorted (map createdAt (recent_history r (messages s)))
   \<and> length (recent_history r (messages s)) =
        min 50 (length (filter (\<lambda>m. msg_room m = r) (messages s)))
   \<and> (\<exists>older.
        mset (filter (\<lambda>m. msg_room m = r) (messages s)) =
          mset older + mset (recent_history r (messages s))
        \<and> (\<forall>m \<in> set older. \<forall>m' \<in> set (recent_history r (messages s)).
              createdAt m \<le> createdAt m'))"
proof (intro conjI)
  show "\<forall>e \<in> set (snd (on_joinRoom down now sid uname rname s)). carries_history e \<longrightarrow>
      (\<exists>g. rname = Some g
         \<and> e = SocketEmit sid (MessageHistory (recent_history g (messages s)))
         \<and> recipients members e = {sid})"
    using history_only_to_joiner by fastforce
  show "uname = Some un \<and> rname = Some r \<and> trim un \<noteq> [] \<and> r \<noteq> [] \<and> sid \<noteq> []
        \<and> sid \<notin> socketId ` set (users s) \<and> UserCreate \<notin> down \<and> MessageFind \<notin> down \<longrightarrow>
      filter carries_history (snd (on_joinRoom down now sid uname rname s)) =
        [SocketEmit sid (MessageHistory (recent_history r (messages s)))]"
    by (simp add: on_joinRoom_created serverMessage_def)
  show "sorted (map createdAt (recent_history r (messages s)))"
    by (rule recent_history_sorted)
  show "length (recent_history r (messages s)) =
        min 50 (length (filter (\<lambda>m. msg_room m = r) (messages s)))"
    by (rule recent_history_length)
  show "\<exists>older.
        mset (filter (\<lambda>m. msg_room m = r) (messages s)) =
          mset older + mset (recent_history r (messages s))
        \<and> (\<forall>m \<in> set older. \<forall>m' \<in> set (recent_history r (messages s)).
              createdAt m \<le> createdAt m')"
    by (rule recent_history_newest)
qed

theorem join_history_witness:
  "(Some ''bob'' = Some ''bob'' \<and> Some ''X'' = Some ''X'' \<and> trim ''bob'' \<noteq> [] \<and> ''X'' \<noteq> []
      \<and> ''s2'' \<noteq> []
      \<and> ''s2'' \<notin> socketId ` set (users
          \<lparr>users = [\<lparr>socketId = ''s1'', username = ''ann'', room = ''X'', joinedAt = 0\<rparr>],
           messages =
             [\<lparr>msg_username = ''ann'', msg_room = ''X'', msg_text = ''b'', createdAt = 5\<rparr>,
              \<lparr>msg_username = ''cy'', msg_room = ''Y'', msg_text = ''c'', createdAt = 4\<rparr>,
              \<lparr>msg_username = ''ann'', msg_room = ''X'', msg_text = ''a'', createdAt = 3\<rparr>],
           rooms = {(''s1'', ''X'')}\<rparr>)
      \<and> UserCreate \<notin> {} \<and> MessageFind \<notin> ({} :: dbcall set))
   \<and> filter carries_history (snd (on_joinRoom {} 7 ''s2'' (Some ''bob'') (Some ''X'')
          \<lparr>users = [\<lparr>socketId = ''s1'', username = ''ann'', room = ''X'', joinedAt = 0\<rparr>],
           messages =
             [\<lparr>msg_username = ''ann'', msg_room = ''X'', msg_text = ''b'', createdAt = 5\<rparr>,
              \<lparr>msg_username = ''cy'', msg_room = ''Y'', msg_text = ''c'', createdAt = 4\<rparr>,
              \<lparr>msg_username = ''ann'', msg_room = ''X'', msg_text = ''a'', createdAt = 3\<rparr>],
           rooms = {(''s1'', ''X'')}\<rparr>))
     = [SocketEmit ''s2'' (MessageHistory
          [\<lparr>msg_username = ''ann'', msg_room = ''X'', msg_text = ''a'', createdAt = 3\<rparr>,
           \<lparr>msg_username = ''ann'', msg_room = ''X'', msg_text = ''b'', createdAt = 5\<rparr>])]"
  using join_history [where down = "{}" and now = 7 and sid = "''s2''"
      and uname = "Some ''bob''" and rname = "Some ''X''" and un = "''bob''" and r = "''X''"
      and s = "\<lparr>users = [\<lparr>socketId = ''s1'', username = ''ann'', room = ''X'', joinedAt = 0\<rparr>],
           messages =
             [\<lparr>msg_username = ''ann'', msg_room = ''X'', msg_text = ''b'', createdAt = 5\<rparr>,
              \<lparr>msg_username = ''cy'', msg_room = ''Y'', msg_text = ''c'', createdAt = 4\<rparr>,
              \<lparr>msg_username = ''ann'', msg_room = ''X'', msg_text = ''a'', createdAt = 3\<rparr>],
           rooms = {(''s1'', ''X'')}\<rparr>"]
  by (simp add: trim_def is_space_def recent_history_def sort_desc_def)

subsection \<open>Joining, then leaving\<close>

lemma delete_first_fresh: "sid \<notin> socketId ` set us \<Longrightarrow> delete_first sid us = us"
  by (induction us) auto

lemma delete_first_last:
  "sid \<notin> socketId ` set us \<Longrightarrow> socketId u = sid \<Longrightarrow> delete_first sid (us @ [u]) = us"
  by (induction us) auto

lemma find_last:
  "sid \<notin> socketId ` set us \<Longrightarrow> socketId u = sid \<Longrightarrow>
   find (\<lambda>v. socketId v = sid) (us @ [u]) = Some u"
  by (induction us) auto

lemma disconnect_users:
  assumes "UserFindOneAndDelete \<notin> down"
  shows "users (fst (on_disconnect down now sid s)) = delete_first sid (users s)"
proof (cases "find (\<lambda>u. socketId u = sid) (users s)")
  case None
  then have "sid \<notin> socketId ` set (users s)"
    by (simp add: no_session_iff)
  then have "delete_first sid (users s) = users s"
    by (rule delete_first_fresh)
  with None assms show ?thesis
    by (simp add: on_disconnect_eq leave_all_def)
next
  case (Some u)
  with assms show ?thesis
    by (simp add: on_disconnect_eq leave_all_def)
qed

lemma join_users:
  "users (fst (on_joinRoom down now sid uname rname s)) = users s
   \<or> (\<exists>u. socketId u = sid \<and> users (fst (on_joinRoom down now sid uname rname s)) = users s @ [u])"
proof (cases "falsy uname \<or> falsy rname")
  case True
  then show ?thesis
    by (simp add: on_joinRoom_missing)
next
  case valid: False
  show ?thesis
  proof (cases "trim (or_empty uname) \<noteq> [] \<and> sid \<noteq> [] \<and> UserCreate \<notin> down
             \<and> sid \<notin> socketId ` set (users s)")
    case False
    with valid show ?thesis
      by (simp add: on_joinRoom_rejected)
  next
    case True
    from valid obtain un r where names: "uname = Some un" "rname = Some r" "r \<noteq> []"
      by (cases uname; cases rname) auto
    with True show ?thesis
      by (simp add: on_joinRoom_created new_user_def)
  qed
qed

text \<open>
  C8. On a socket without a session, a \<open>joinRoom\<close> followed by the \<open>disconnect\<close> of the
  same socket, the removal of the session not failing, leaves the \<open>User\<close> collection, and
  with it the occupants of every room, as before the join; this holds whether or not the
  join succeeded. When the names are valid and the session is created, the join adds
  exactly the new session at the end of the collection and the disconnect removes
  exactly that session.
\<close>

theorem join_then_disconnect:
  assumes "sid \<notin> socketId ` set (users s)" and "UserFindOneAndDelete \<notin> down2"
  shows "(\<forall>g. occupants g (fst (on_disconnect down2 now2 sid
                  (fst (on_joinRoom down now sid uname rname s)))) = occupants g s)
    \<and> (uname = Some un \<and> rname = Some r \<and> trim un \<noteq> [] \<and> r \<noteq> [] \<and> sid \<noteq> []
         \<and> UserCreate \<notin> down \<longrightarrow>
       users (fst (on_joinRoom down now sid uname rname s)) = users s @ [new_user now sid un r]
       \<and> (\<exists>rest. snd (on_disconnect down2 now2 sid (fst (on_joinRoom down now sid uname rname s)))
                   = Remove (new_user now sid un r) # rest)
       \<and> users (fst (on_disconnect down2 now2 sid (fst (on_joinRoom down now sid uname rname s))))
           = users s)"
proof -
  let ?s1 = "fst (on_joinRoom down now sid uname rname s)"
  let ?u = "new_user now sid un r"
  have restored: "users (fst (on_disconnect down2 now2 sid ?s1)) = users s"
    using join_users [of down now sid uname rname s] assms
    by (auto simp: disconnect_users delete_first_fresh delete_first_last)
  then have occ: "\<forall>g. occupants g (fst (on_disconnect down2 now2 sid ?s1)) = occupants g s"
    by (simp add: occupants_def)
  have "users ?s1 = users s @ [?u]
       \<and> (\<exists>rest. snd (on_disconnect down2 now2 sid ?s1) = Remove ?u # rest)
       \<and> users (fst (on_disconnect down2 now2 sid ?s1)) = users s"
    if ok: "uname = Some un \<and> rname = Some r \<and> trim un \<noteq> [] \<and> r \<noteq> [] \<and> sid \<noteq> []
         \<and> UserCreate \<notin> down"
  proof -
    from ok assms(1) have joined: "users ?s1 = users s @ [?u]"
      by (simp add: on_joinRoom_created)
    have sid: "socketId ?u = sid"
      by (simp add: new_user_def)
    from assms(1) sid have found: "find (\<lambda>v. socketId v = sid) (users ?s1) = Some ?u"
      unfolding joined by (rule find_last)
    have "\<exists>rest. snd (on_disconnect down2 now2 sid ?s1) = Remove ?u # rest"
      using assms(2) found by (simp add: on_disconnect_eq)
    with joined restored show ?thesis
      by blast
  qed
  with occ show ?thesis
    by blast
qed

theorem join_then_disconnect_witness:
  "''s2'' \<notin> socketId ` set (users
        \<lparr>users = [\<lparr>socketId = ''s1'', username = ''ann'', room = ''X'', joinedAt = 0\<rparr>],
         messages = [], rooms = {(''s1'', ''X'')}\<rparr>)
   \<and> UserFindOneAndDelete \<notin> ({} :: dbcall set)
   \<and> (Some ''bob'' = Some ''bob'' \<and> Some ''X'' = Some ''X'' \<and> trim ''bob'' \<noteq> [] \<and> ''X'' \<noteq> []
       \<and> ''s2'' \<noteq> [] \<and> UserCreate \<notin> ({} :: dbcall set))
   \<and> occupants ''X'' (fst (on_disconnect {} 9 ''s2''
        (fst (on_joinRoom {} 7 ''s2'' (Some ''bob'') (Some ''X'')
           \<lparr>users = [\<lparr>socketId = ''s1'', username = ''ann'', room = ''X'', joinedAt = 0\<rparr>],
            messages = [], rooms = {(''s1'', ''X'')}\<rparr>)))) = [''ann'']
   \<and> users (fst (on_joinRoom {} 7 ''s2'' (Some ''bob'') (Some ''X'')
           \<lparr>users = [\<lparr>socketId = ''s1'', username = ''ann'', room = ''X'', joinedAt = 0\<rparr>],
            messages = [], rooms = {(''s1'', ''X'')}\<rparr>))
       = [\<lparr>socketId = ''s1'', username = ''ann'', room = ''X'', joinedAt = 0\<rparr>,
          \<lparr>socketId = ''s2'', username = ''bob'', room = ''X'', joinedAt = 7\<rparr>]"
  using join_then_disconnect [where sid = "''s2''" and down = "{}" and ?down2.0 = "{}"
      and now = 7 and ?now2.0 = 9 and uname = "Some ''bob''" and rname = "Some ''X''"
      and un = "''bob''" and r = "''X''"
      and s = "\<lparr>users = [\<lparr>socketId = ''s1'', username = ''ann'', room = ''X'', joinedAt = 0\<rparr>],
         messages = [], rooms = {(''s1'', ''X'')}\<rparr>"]
  by (simp add: trim_def is_space_def new_user_def occupants_def)

subsection \<open>Persistence failures\<close>

text \<open>
  C2, as stated, fails: when the history fetch of a join rejects, the session has been
  written and the socket has joined the room, and both stay.
\<close>

theorem history_fetch_failure_counterexample:
  "on_joinRoom {MessageFind} 7 ''s1'' (Some ''ann'') (Some ''X'')
       \<lparr>users = [], messages = [], rooms = {}\<rparr>
     = (\<lparr>users = [\<lparr>socketId = ''s1'', username = ''ann'', room = ''X'', joinedAt = 7\<rparr>],
         messages = [], rooms = {(''s1'', ''X'')}\<rparr>,
        [Persist \<lparr>socketId = ''s1'', username = ''ann'', room = ''X'', joinedAt = 7\<rparr>,
         Join ''s1'' ''X'',
         SocketEmit ''s1'' (Msg ''Server'' ''Failed to join room. Please try again.'' 7)])
   \<and> users (fst (on_joinRoom {MessageFind} 7 ''s1'' (Some ''ann'') (Some ''X'')
                \<lparr>users = [], messages = [], rooms = {}\<rparr>))
       \<noteq> users \<lparr>users = [], messages = [], rooms = {}\<rparr>
   \<and> rooms (fst (on_joinRoom {MessageFind} 7 ''s1'' (Some ''ann'') (Some ''X'')
                \<lparr>users = [], messages = [], rooms = {}\<rparr>))
       \<noteq> rooms \<lparr>users = [], messages = [], rooms = {}\<rparr>"
  by (simp add: on_joinRoom_def joinRoom_try_def User_create_def Message_find_def trim_def
      is_space_def serverMessage_def Let_def)

text \<open>
  C2, amended. When the session create of a join rejects, or the message save of a
  \<open>chat-message\<close> rejects, the handler leaves the state as it was and its only effect is
  the failure notice emitted to the socket of the event. When the history fetch of a
  join rejects after the session was created, the only emission is again the failure
  notice to the joining socket, and nothing is sent to the room; the session written
  and the socket's membership of the room remain.
\<close>

theorem persistence_failure_contained:
  "(\<not> falsy uname \<and> \<not> falsy rname \<and> UserCreate \<in> down \<longrightarrow>
      on_joinRoom down now sid uname rname s =
        (s, [SocketEmit sid (serverMessage now ''Failed to join room. Please try again.'')]))
   \<and> (trim (or_empty txt) \<noteq> [] \<and> UserFindOne \<notin> down
        \<and> find (\<lambda>v. socketId v = sid) (users s) = Some u \<and> MessageCreate \<in> down \<longrightarrow>
      on_chat_message down now sid txt s =
        (s, [SocketEmit sid (serverMessage now ''Failed to send message.'')]))
   \<and> (uname = Some un \<and> rname = Some r \<and> trim un \<noteq> [] \<and> r \<noteq> [] \<and> sid \<noteq> []
        \<and> sid \<notin> socketId ` set (users s) \<and> UserCreate \<notin> down \<and> MessageFind \<in> down \<longrightarrow>
      on_joinRoom down now sid uname rname s =
        (s\<lparr>users := users s @ [new_user now sid un r], rooms := insert (sid, r) (rooms s)\<rparr>,
         [Persist (new_user now sid un r),
          Join sid r,
          SocketEmit sid (serverMessage now ''Failed to join room. Please try again.'')]))"
proof (intro conjI impI)
  assume "\<not> falsy uname \<and> \<not> falsy rname \<and> UserCreate \<in> down"
  then show "on_joinRoom down now sid uname rname s =
        (s, [SocketEmit sid (serverMessage now ''Failed to join room. Please try again.'')])"
    by (simp add: on_joinRoom_rejected)
next
  assume "trim (or_empty txt) \<noteq> [] \<and> UserFindOne \<notin> down
        \<and> find (\<lambda>v. socketId v = sid) (users s) = Some u \<and> MessageCreate \<in> down"
  then show "on_chat_message down now sid txt s =
        (s, [SocketEmit sid (serverMessage now ''Failed to send message.'')])"
    by (simp add: on_chat_message_eq)
next
  assume "uname = Some un \<and> rname = Some r \<and> trim un \<noteq> [] \<and> r \<noteq> [] \<and> sid \<noteq> []
        \<and> sid \<notin> socketId ` set (users s) \<and> UserCreate \<notin> down \<and> MessageFind \<in> down"
  then show "on_joinRoom down now sid uname rname s =
        (s\<lparr>users := users s @ [new_user now sid un r], rooms := insert (sid, r) (rooms s)\<rparr>,
         [Persist (new_user now sid un r),
          Join sid r,
          SocketEmit sid (serverMessage now ''Failed to join room. Please try again.'')])"
    by (simp add: on_joinRoom_created)
qed

theorem persistence_failure_contained_witness:
  "(\<not> falsy (Some ''ann'') \<and> \<not> falsy (Some ''X'') \<and> UserCreate \<in> {UserCreate})
   \<and> on_joinRoom {UserCreate} 7 ''s1'' (Some ''ann'') (Some ''X'')
        \<lparr>users = [], messages = [], rooms = {}\<rparr>
      = (\<lparr>users = [], messages = [], rooms = {}\<rparr>,
         [SocketEmit ''s1'' (Msg ''Server'' ''Failed to join room. Please try again.'' 7)])
   \<and> (trim (or_empty (Some ''hi'')) \<noteq> [] \<and> UserFindOne \<notin> {MessageCreate}
       \<and> find (\<lambda>v. socketId v = ''s1'')
            (users \<lparr>users = [\<lparr>socketId = ''s1'', username = ''ann'', room = ''X'', joinedAt = 0\<rparr>],
                    messages = [], rooms = {(''s1'', ''X'')}\<rparr>)
          = Some \<lparr>socketId = ''s1'', username = ''ann'', room = ''X'', joinedAt = 0\<rparr>
       \<and> MessageCreate \<in> {MessageCreate})
   \<and> on_chat_message {MessageCreate} 7 ''s1'' (Some ''hi'')
        \<lparr>users = [\<lparr>socketId = ''s1'', username = ''ann'', room = ''X'', joinedAt = 0\<rparr>],
         messages = [], rooms = {(''s1'', ''X'')}\<rparr>
      = (\<lparr>users = [\<lparr>socketId = ''s1'', username = ''ann'', room = ''X'', joinedAt = 0\<rparr>],
          messages = [], rooms = {(''s1'', ''X'')}\<rparr>,
         [SocketEmit ''s1'' (Msg ''Server'' ''Failed to send message.'' 7)])
   \<and> (Some ''ann'' = Some ''ann'' \<and> Some ''X'' = Some ''X'' \<and> trim ''ann'' \<noteq> [] \<and> ''X'' \<noteq> []
       \<and> ''s1'' \<noteq> [] \<and> ''s1'' \<notin> socketId ` set (users \<lparr>users = [], messages = [], rooms = {}\<rparr>)
       \<and> UserCreate \<notin> {MessageFind} \<and> MessageFind \<in> {MessageFind})
   \<and> on_joinRoom {MessageFind} 7 ''s1'' (Some ''ann'') (Some ''X'')
        \<lparr>users = [], messages = [], rooms = {}\<rparr>
      = (\<lparr>users = [\<lparr>socketId = ''s1'', username = ''ann'', room = ''X'', joinedAt = 7\<rparr>],
          messages = [], rooms = {(''s1'', ''X'')}\<rparr>,
         [Persist \<lparr>socketId = ''s1'', username = ''ann'', room = ''X'', joinedAt = 7\<rparr>,
          Join ''s1'' ''X'',
          SocketEmit ''s1'' (Msg ''Server'' ''Failed to join room. Please try again.'' 7)])"
proof -
  let ?e = "\<lparr>users = [], messages = [], rooms = {}\<rparr>"
  let ?u = "\<lparr>socketId = ''s1'', username = ''ann'', room = ''X'', joinedAt = 0\<rparr>"
  let ?s = "\<lparr>users = [?u], messages = [], rooms = {(''s1'', ''X'')}\<rparr>"
  have create: "(\<not> falsy (Some ''ann'') \<and> \<not> falsy (Some ''X'') \<and> UserCreate \<in> {UserCreate})
     \<and> on_joinRoom {UserCreate} 7 ''s1'' (Some ''ann'') (Some ''X'') ?e
       = (?e, [SocketEmit ''s1'' (Msg ''Server'' ''Failed to join room. Please try again.'' 7)])"
    using persistence_failure_contained [where down = "{UserCreate}" and now = 7
        and sid = "''s1''" and uname = "Some ''ann''" and rname = "Some ''X''" and s = ?e]
    by (simp add: serverMessage_def)
  have save: "(trim (or_empty (Some ''hi'')) \<noteq> [] \<and> UserFindOne \<notin> {MessageCreate}
       \<and> find (\<lambda>v. socketId v = ''s1'') (users ?s) = Some ?u
       \<and> MessageCreate \<in> {MessageCreate})
     \<and> on_chat_message {MessageCreate} 7 ''s1'' (Some ''hi'') ?s
       = (?s, [SocketEmit ''s1'' (Msg ''Server'' ''Failed to send message.'' 7)])"
    using persistence_failure_contained [where down = "{MessageCreate}" and now = 7
        and sid = "''s1''" and ?txt = "Some ''hi''" and u = ?u and s = ?s]
    by (simp add: trim_def is_space_def serverMessage_def)
  have fetch: "(Some ''ann'' = Some ''ann'' \<and> Some ''X'' = Some ''X'' \<and> trim ''ann'' \<noteq> []
       \<and> ''X'' \<noteq> [] \<and> ''s1'' \<noteq> [] \<and> ''s1'' \<notin> socketId ` set (users ?e)
       \<and> UserCreate \<notin> {MessageFind} \<and> MessageFind \<in> {MessageFind})
     \<and> on_joinRoom {MessageFind} 7 ''s1'' (Some ''ann'') (Some ''X'') ?e
       = (\<lparr>users = [\<lparr>socketId = ''s1'', username = ''ann'', room = ''X'', joinedAt = 7\<rparr>],
           messages = [], rooms = {(''s1'', ''X'')}\<rparr>,
          [Persist \<lparr>socketId = ''s1'', username = ''ann'', room = ''X'', joinedAt = 7\<rparr>,
           Join ''s1'' ''X'',
           SocketEmit ''s1'' (Msg ''Server'' ''Failed to join room. Please try again.'' 7)])"
    using persistence_failure_contained [where down = "{MessageFind}" and now = 7
        and sid = "''s1''" and uname = "Some ''ann''" and rname = "Some ''X''"
        and un = "''ann''" and r = "''X''" and s = ?e]
    by (simp add: trim_def is_space_def new_user_def serverMessage_def)
  from create save fetch show ?thesis
    by blast
qed

subsection \<open>Joins that are refused\<close>

text \<open>
  C5, as stated, fails: a room name made of white space only passes the guard and the
  schema, so the session is created and the socket joins that room.
\<close>

theorem blank_room_join_counterexample:
  "on_joinRoom {} 7 ''s1'' (Some ''ann'') (Some '' '') \<lparr>users = [], messages = [], rooms = {}\<rparr>
     = (\<lparr>users = [\<lparr>socketId = ''s1'', username = ''ann'', room = '' '', joinedAt = 7\<rparr>],
         messages = [], rooms = {(''s1'', '' '')}\<rparr>,
        [Persist \<lparr>socketId = ''s1'', username = ''ann'', room = '' '', joinedAt = 7\<rparr>,
         Join ''s1'' '' '',
         SocketEmit ''s1'' (MessageHistory []),
         SocketEmit ''s1'' (Msg ''Server'' ''Welcome to  , ann!'' 7),
         BroadcastEmit ''s1'' '' '' (Msg ''Server'' ''ann has joined the chat.'' 7),
         RoomEmit '' '' (RoomUsers [''ann''])])"
  by (simp add: on_joinRoom_def joinRoom_try_def User_create_def Message_find_def
      emitRoomUsers_def User_find_def sort_desc_def trim_def is_space_def serverMessage_def
      Let_def)

lemma joinRoom_event_payload:
  "joinRoom_event down now sid (Some (uname, rname)) s =
     (fst (on_joinRoom down now sid uname rname s),
      snd (on_joinRoom down now sid uname rname s), None)"
  by (simp add: joinRoom_event_def split: prod.split)

lemma joinRoom_event_no_payload:
  "joinRoom_event down now sid None s = (s, [], Some TypeError)"
  by (simp add: joinRoom_event_def)

lemma joinRoom_event_field_absent:
  "uname = None \<or> rname = None \<Longrightarrow>
   joinRoom_event down now sid (Some (uname, rname)) s =
     (s, [SocketEmit sid (serverMessage now ''Username and room are required.'')], None)"
  by (auto simp add: joinRoom_event_payload on_joinRoom_missing)

text \<open>
  C5, amended. A \<open>joinRoom\<close> whose payload gives a user name and a room of which one
  is the empty string is refused with the notice that both are required, emitted to the
  joining socket only; no session is created and the socket joins no room. A user name
  that is not empty but made of white space only, with a room that is not empty, is
  refused as well, by the schema, with the notice of a failed join instead; again the
  state is as it was. A room name that is made of white space only is not refused: with
  a user name that is not blank, on a socket without a session and with the session
  create not failing, the session is created with that room and the socket joins it.
\<close>

theorem invalid_join_refused:
  "(un = [] \<or> r = [] \<longrightarrow>
      joinRoom_event down now sid (Some (Some un, Some r)) s =
        (s, [SocketEmit sid (serverMessage now ''Username and room are required.'')], None))
   \<and> (un \<noteq> [] \<and> list_all is_space un \<and> r \<noteq> [] \<longrightarrow>
      joinRoom_event down now sid (Some (Some un, Some r)) s =
        (s, [SocketEmit sid (serverMessage now ''Failed to join room. Please try again.'')],
         None))
   \<and> (trim un \<noteq> [] \<and> r \<noteq> [] \<and> list_all is_space r \<and> sid \<noteq> []
        \<and> sid \<notin> socketId ` set (users s) \<and> UserCreate \<notin> down \<longrightarrow>
      fst (joinRoom_event down now sid (Some (Some un, Some r)) s) =
        s\<lparr>users := users s @ [new_user now sid un r], rooms := insert (sid, r) (rooms s)\<rparr>)"
proof (intro conjI impI)
  assume "un = [] \<or> r = []"
  then have "falsy (Some un) \<or> falsy (Some r)"
    by simp
  then show "joinRoom_event down now sid (Some (Some un, Some r)) s =
        (s, [SocketEmit sid (serverMessage now ''Username and room are required.'')], None)"
    by (simp only: joinRoom_event_payload on_joinRoom_missing fst_conv snd_conv)
next
  assume blank: "un \<noteq> [] \<and> list_all is_space un \<and> r \<noteq> []"
  then have "trim (or_empty (Some un)) = []"
    by (simp add: trim_empty_iff list_all_iff)
  with blank have "on_joinRoom down now sid (Some un) (Some r) s =
        (s, [SocketEmit sid (serverMessage now ''Failed to join room. Please try again.'')])"
    by (simp add: on_joinRoom_rejected)
  then show "joinRoom_event down now sid (Some (Some un, Some r)) s =
        (s, [SocketEmit sid (serverMessage now ''Failed to join room. Please try again.'')],
         None)"
    by (simp only: joinRoom_event_payload fst_conv snd_conv)
next
  assume "trim un \<noteq> [] \<and> r \<noteq> [] \<and> list_all is_space r \<and> sid \<noteq> []
        \<and> sid \<notin> socketId ` set (users s) \<and> UserCreate \<notin> down"
  then show "fst (joinRoom_event down now sid (Some (Some un, Some r)) s) =
        s\<lparr>users := users s @ [new_user now sid un r], rooms := insert (sid, r) (rooms s)\<rparr>"
    by (simp add: joinRoom_event_payload on_joinRoom_created)
qed

theorem invalid_join_refused_witness:
  "(''ann'' = [] \<or> '''' = [])
   \<and> joinRoom_event {} 7 ''s1'' (Some (Some ''ann'', Some ''''))
        \<lparr>users = [], messages = [], rooms = {}\<rparr>
      = (\<lparr>users = [], messages = [], rooms = {}\<rparr>,
         [SocketEmit ''s1'' (Msg ''Server'' ''Username and room are required.'' 7)], None)
   \<and> (''  '' \<noteq> [] \<and> list_all is_space ''  '' \<and> ''X'' \<noteq> [])
   \<and> joinRoom_event {} 7 ''s1'' (Some (Some ''  '', Some ''X''))
        \<lparr>users = [], messages = [], rooms = {}\<rparr>
      = (\<lparr>users = [], messages = [], rooms = {}\<rparr>,
         [SocketEmit ''s1'' (Msg ''Server'' ''Failed to join room. Please try again.'' 7)],
         None)
   \<and> (trim ''ann'' \<noteq> [] \<and> '' '' \<noteq> [] \<and> list_all is_space '' '' \<and> ''s1'' \<noteq> []
       \<and> ''s1'' \<notin> socketId ` set (users \<lparr>users = [], messages = [], rooms = {}\<rparr>)
       \<and> UserCreate \<notin> ({} :: dbcall set))
   \<and> fst (joinRoom_event {} 7 ''s1'' (Some (Some ''ann'', Some '' ''))
        \<lparr>users = [], messages = [], rooms = {}\<rparr>)
      = \<lparr>users = [\<lparr>socketId = ''s1'', username = ''ann'', room = '' '', joinedAt = 7\<rparr>],
         messages = [], rooms = {(''s1'', '' '')}\<rparr>"
proof -
  let ?e = "\<lparr>users = [], messages = [], rooms = {}\<rparr>"
  have empty: "(''ann'' = [] \<or> '''' = [])
     \<and> joinRoom_event {} 7 ''s1'' (Some (Some ''ann'', Some '''')) ?e
       = (?e, [SocketEmit ''s1'' (Msg ''Server'' ''Username and room are required.'' 7)], None)"
    using invalid_join_refused [where un = "''ann''" and r = "''''"
        and down = "{}" and now = 7 and sid = "''s1''" and s = ?e]
    by (simp add: serverMessage_def)
  have blank: "(''  '' \<noteq> [] \<and> list_all is_space ''  '' \<and> ''X'' \<noteq> [])
     \<and> joinRoom_event {} 7 ''s1'' (Some (Some ''  '', Some ''X'')) ?e
       = (?e, [SocketEmit ''s1'' (Msg ''Server'' ''Failed to join room. Please try again.'' 7)],
          None)"
    using invalid_join_refused [where un = "''  ''" and r = "''X''"
        and down = "{}" and now = 7 and sid = "''s1''" and s = ?e]
    by (simp add: is_space_def serverMessage_def)
  have room: "(trim ''ann'' \<noteq> [] \<and> '' '' \<noteq> [] \<and> list_all is_space '' '' \<and> ''s1'' \<noteq> []
       \<and> ''s1'' \<notin> socketId ` set (users ?e) \<and> UserCreate \<notin> ({} :: dbcall set))
     \<and> fst (joinRoom_event {} 7 ''s1'' (Some (Some ''ann'', Some '' '')) ?e)
       = \<lparr>users = [\<lparr>socketId = ''s1'', username = ''ann'', room = '' '', joinedAt = 7\<rparr>],
          messages = [], rooms = {(''s1'', '' '')}\<rparr>"
    using invalid_join_refused [where un = "''ann''" and r = "'' ''"
        and down = "{}" and now = 7 and sid = "''s1''" and s = ?e]
    by (simp add: trim_def is_space_def new_user_def)
  from empty blank room show ?thesis
    by blast
qed

text \<open>
  C6, as stated, fails: a second \<open>joinRoom\<close> on a socket that has a session is refused
  by the unique index on \<open>socketId\<close>; the session is not replaced.
\<close>

theorem second_join_counterexample:
  "on_joinRoom {} 7 ''s1'' (Some ''ann'') (Some ''X'')
       \<lparr>users = [\<lparr>socketId = ''s1'', username = ''bob'', room = ''Y'', joinedAt = 0\<rparr>],
        messages = [], rooms = {(''s1'', ''Y'')}\<rparr>
     = (\<lparr>users = [\<lparr>socketId = ''s1'', username = ''bob'', room = ''Y'', joinedAt = 0\<rparr>],
         messages = [], rooms = {(''s1'', ''Y'')}\<rparr>,
        [SocketEmit ''s1'' (Msg ''Server'' ''Failed to join room. Please try again.'' 7)])"
  by (simp add: on_joinRoom_def joinRoom_try_def User_create_def trim_def is_space_def
      serverMessage_def Let_def)

lemma one_session:
  "distinct (map socketId us) \<Longrightarrow> sid \<in> socketId ` set us \<Longrightarrow>
   length (filter (\<lambda>u. socketId u = sid) us) = 1"
proof (induction us)
  case Nil
  then show ?case by simp
next
  case (Cons u us)
  show ?case
  proof (cases "socketId u = sid")
    case True
    with Cons.prems have "sid \<notin> socketId ` set us"
      by auto
    then have "filter (\<lambda>u. socketId u = sid) us = []"
      by (auto simp: filter_empty_conv)
    with True show ?thesis
      by simp
  next
    case False
    with Cons show ?thesis
      by auto
  qed
qed

text \<open>
  C6, amended. A \<open>joinRoom\<close> with a user name and a room on a socket that already has a
  session is refused: the state, and so the session of the socket, is as it was, and the
  only effect is the notice of a failed join to that socket. With at most one session
  per socket id before, the socket has exactly one session after.
\<close>

theorem second_join_refused:
  assumes "sid \<in> socketId ` set (users s)" and "\<not> falsy uname" and "\<not> falsy rname"
  shows "on_joinRoom down now sid uname rname s =
      (s, [SocketEmit sid (serverMessage now ''Failed to join room. Please try again.'')])
    \<and> (distinct (map socketId (users s)) \<longrightarrow>
         length (filter (\<lambda>u. socketId u = sid)
           (users (fst (on_joinRoom down now sid uname rname s)))) = 1)"
proof -
  from assms have "on_joinRoom down now sid uname rname s =
      (s, [SocketEmit sid (serverMessage now ''Failed to join room. Please try again.'')])"
    by (simp add: on_joinRoom_rejected)
  with assms(1) show ?thesis
    by (simp add: one_session)
qed

theorem second_join_refused_witness:
  "''s1'' \<in> socketId ` set (users
       \<lparr>users = [\<lparr>socketId = ''s1'', username = ''bob'', room = ''Y'', joinedAt = 0\<rparr>],
        messages = [], rooms = {(''s1'', ''Y'')}\<rparr>)
   \<and> \<not> falsy (Some ''ann'') \<and> \<not> falsy (Some ''X'')
   \<and> distinct (map socketId (users
       \<lparr>users = [\<lparr>socketId = ''s1'', username = ''bob'', room = ''Y'', joinedAt = 0\<rparr>],
        messages = [], rooms = {(''s1'', ''Y'')}\<rparr>))
   \<and> on_joinRoom {} 7 ''s1'' (Some ''ann'') (Some ''X'')
       \<lparr>users = [\<lparr>socketId = ''s1'', username = ''bob'', room = ''Y'', joinedAt = 0\<rparr>],
        messages = [], rooms = {(''s1'', ''Y'')}\<rparr>
     = (\<lparr>users = [\<lparr>socketId = ''s1'', username = ''bob'', room = ''Y'', joinedAt = 0\<rparr>],
         messages = [], rooms = {(''s1'', ''Y'')}\<rparr>,
        [SocketEmit ''s1'' (Msg ''Server'' ''Failed to join room. Please try again.'' 7)])"
  using second_join_refused [where sid = "''s1''" and uname = "Some ''ann''"
      and rname = "Some ''X''" and down = "{}" and now = 7
      and s = "\<lparr>users = [\<lparr>socketId = ''s1'', username = ''bob'', room = ''Y'', joinedAt = 0\<rparr>],
        messages = [], rooms = {(''s1'', ''Y'')}\<rparr>"]
  by (simp add: serverMessage_def)

subsection \<open>Sending while typing\<close>

text \<open>
  C7, as stated, fails: the server keeps no typing flag, and its handling of a
  \<open>chat-message\<close> emits no \<open>stopTyping\<close>. A \<open>typing\<close> of ann is announced to the
  others in her room and leaves the state as it was; the handling of her message then
  stores it and sends it to the room, with no \<open>stopTyping\<close> before it.
\<close>

theorem send_while_typing_counterexample:
  "on_typing {} ''s1''
       \<lparr>users = [\<lparr>socketId = ''s1'', username = ''ann'', room = ''X'', joinedAt = 0\<rparr>,
                 \<lparr>socketId = ''s2'', username = ''bob'', room = ''X'', joinedAt = 1\<rparr>],
        messages = [], rooms = {(''s1'', ''X''), (''s2'', ''X'')}\<rparr>
     = (\<lparr>users = [\<lparr>socketId = ''s1'', username = ''ann'', room = ''X'', joinedAt = 0\<rparr>,
                  \<lparr>socketId = ''s2'', username = ''bob'', room = ''X'', joinedAt = 1\<rparr>],
         messages = [], rooms = {(''s1'', ''X''), (''s2'', ''X'')}\<rparr>,
        [BroadcastEmit ''s1'' ''X'' (Typing ''ann'')])
   \<and> snd (on_chat_message {} 7 ''s1'' (Some ''hi'')
         \<lparr>users = [\<lparr>socketId = ''s1'', username = ''ann'', room = ''X'', joinedAt = 0\<rparr>,
                   \<lparr>socketId = ''s2'', username = ''bob'', room = ''X'', joinedAt = 1\<rparr>],
          messages = [], rooms = {(''s1'', ''X''), (''s2'', ''X'')}\<rparr>)
     = [Save \<lparr>msg_username = ''ann'', msg_room = ''X'', msg_text = ''hi'', createdAt = 7\<rparr>,
        RoomEmit ''X'' (Msg ''ann'' ''hi'' 7)]"
  by (simp add: on_typing_def on_chat_message_def chat_message_try_def User_findOne_def
      Message_create_def trim_def is_space_def Let_def)

lemma chat_message_no_stop_typing:
  "list_all (\<lambda>e. \<not> is_stop_typing e) (snd (on_chat_message down now sid txt s))"
  by (simp add: on_chat_message_eq serverMessage_def split: option.split)

lemma sendMessage_typing:
  assumes "hasToldServerTyping c" and "trim (msg c) \<noteq> []"
  shows "snd (sendMessage c) = [EmitStopTyping, EmitChatMessage (trim (msg c))]"
  using assms by (simp add: sendMessage_def stopTyping_def Let_def)

text \<open>
  C7, amended. The handling of a \<open>chat-message\<close> by the server emits no \<open>stopTyping\<close>,
  whatever the state, the text and the failures. It is the client that stops typing:
  \<open>sendMessage\<close> of a client that has told the server it is typing, with a text that is
  not blank, emits \<open>stopTyping\<close> and then \<open>chat-message\<close>, in this order. The
  listener of \<open>stopTyping\<close>, for a socket with a session and a lookup that answers,
  announces it to the others in the room of the session. Nothing is stated of the order
  in which the effects of the two listeners take place.
\<close>

theorem client_stops_typing_before_send:
  "(hasToldServerTyping c \<and> trim (msg c) \<noteq> [] \<longrightarrow>
      snd (sendMessage c) = [EmitStopTyping, EmitChatMessage (trim (msg c))])
   \<and> list_all (\<lambda>e. \<not> is_stop_typing e) (snd (on_chat_message down now sid txt s))
   \<and> (UserFindOne \<notin> down \<and> find (\<lambda>v. socketId v = sid) (users s) = Some u \<longrightarrow>
      handle down now sid EmitStopTyping s =
        (s, [BroadcastEmit sid (room u) (StopTyping (username u))]))"
proof (intro conjI impI)
  assume "hasToldServerTyping c \<and> trim (msg c) \<noteq> []"
  then show "snd (sendMessage c) = [EmitStopTyping, EmitChatMessage (trim (msg c))]"
    by (simp add: sendMessage_typing)
next
  show "list_all (\<lambda>e. \<not> is_stop_typing e) (snd (on_chat_message down now sid txt s))"
    by (rule chat_message_no_stop_typing)
next
  assume "UserFindOne \<notin> down \<and> find (\<lambda>v. socketId v = sid) (users s) = Some u"
  then show "handle down now sid EmitStopTyping s =
        (s, [BroadcastEmit sid (room u) (StopTyping (username u))])"
    by (simp add: on_stopTyping_eq)
qed

theorem client_stops_typing_before_send_witness:
  "(hasToldServerTyping \<lparr>msg = ''hi '', hasToldServerTyping = True, typingTimeout = True\<rparr>
    \<and> trim (msg \<lparr>msg = ''hi '', hasToldServerTyping = True, typingTimeout = True\<rparr>) \<noteq> [])
   \<and> snd (sendMessage \<lparr>msg = ''hi '', hasToldServerTyping = True, typingTimeout = True\<rparr>)
      = [EmitStopTyping, EmitChatMessage ''hi'']
   \<and> list_all (\<lambda>e. \<not> is_stop_typing e)
        (snd (on_chat_message {} 7 ''s1'' (Some ''hi'')
          \<lparr>users = [\<lparr>socketId = ''s1'', username = ''ann'', room = ''X'', joinedAt = 0\<rparr>],
           messages = [], rooms = {(''s1'', ''X'')}\<rparr>))
   \<and> (UserFindOne \<notin> ({} :: dbcall set)
       \<and> find (\<lambda>v. socketId v = ''s1'')
            (users \<lparr>users = [\<lparr>socketId = ''s1'', username = ''ann'', room = ''X'', joinedAt = 0\<rparr>],
                    messages = [], rooms = {(''s1'', ''X'')}\<rparr>)
          = Some \<lparr>socketId = ''s1'', username = ''ann'', room = ''X'', joinedAt = 0\<rparr>)
   \<and> handle {} 7 ''s1'' EmitStopTyping
        \<lparr>users = [\<lparr>socketId = ''s1'', username = ''ann'', room = ''X'', joinedAt = 0\<rparr>],
         messages = [], rooms = {(''s1'', ''X'')}\<rparr>
      = (\<lparr>users = [\<lparr>socketId = ''s1'', username = ''ann'', room = ''X'', joinedAt = 0\<rparr>],
          messages = [], rooms = {(''s1'', ''X'')}\<rparr>,
         [BroadcastEmit ''s1'' ''X'' (StopTyping ''ann'')])"
proof -
  let ?c = "\<lparr>msg = ''hi '', hasToldServerTyping = True, typingTimeout = True\<rparr>"
  let ?u = "\<lparr>socketId = ''s1'', username = ''ann'', room = ''X'', joinedAt = 0\<rparr>"
  let ?s = "\<lparr>users = [?u], messages = [], rooms = {(''s1'', ''X'')}\<rparr>"
  note run = client_stops_typing_before_send [where c = ?c and down = "{}" and now = 7
      and sid = "''s1''" and ?txt = "Some ''hi''" and s = ?s and u = ?u]
  have typed: "hasToldServerTyping ?c \<and> trim (msg ?c) \<noteq> []"
    by (simp add: trim_def is_space_def)
  have trimmed: "trim (msg ?c) = ''hi''"
    by (simp add: trim_def is_space_def)
  from run typed have "snd (sendMessage ?c) = [EmitStopTyping, EmitChatMessage (trim (msg ?c))]"
    by blast
  then have sent: "snd (sendMessage ?c) = [EmitStopTyping, EmitChatMessage ''hi'']"
    by (simp only: trimmed)
  from run have quiet: "list_all (\<lambda>e. \<not> is_stop_typing e)
      (snd (on_chat_message {} 7 ''s1'' (Some ''hi'') ?s))"
    by blast
  have session: "UserFindOne \<notin> ({} :: dbcall set)
      \<and> find (\<lambda>v. socketId v = ''s1'') (users ?s) = Some ?u"
    by simp
  from run session have "handle {} 7 ''s1'' EmitStopTyping ?s =
      (?s, [BroadcastEmit ''s1'' (room ?u) (StopTyping (username ?u))])"
    by blast
  then have relayed: "handle {} 7 ''s1'' EmitStopTyping ?s =
      (?s, [BroadcastEmit ''s1'' ''X'' (StopTyping ''ann'')])"
    by simp
  from typed sent quiet session relayed show ?thesis
    by blast
qed

end
